theory Spec2Isabelle
  imports Complex_Main
begin

section \<open>Machine arithmetic\<close>

text \<open>
  The coordinates of a vector are machine floating-point numbers. Their arithmetic
  rounds, overflows to an infinity, underflows to zero and yields NaN, and none of
  that is arithmetic on the real numbers. The arithmetic is therefore a parameter of
  this development: a type \<open>'a\<close> of machine numbers and the operations that vec.cpp
  applies to them. \<open>fadd\<close>, \<open>fsub\<close>, \<open>fmul\<close> and \<open>fdiv\<close> are \<^verbatim>\<open>+\<close>, \<^verbatim>\<open>-\<close>,
  \<^verbatim>\<open>*\<close> and \<^verbatim>\<open>/\<close>; \<open>fless\<close> is \<^verbatim>\<open><\<close>; \<open>fsqrt\<close> is the square root; \<open>lit_zero\<close>
  is the literal \<^verbatim>\<open>0.0\<close> and \<open>lit_eps\<close> the literal \<^verbatim>\<open>1.0E-10\<close>. Nothing is assumed
  of the operations, so what is proved for every arithmetic holds for the machine's,
  whatever it does on overflow or on a division by zero.
\<close>

record 'a arith =
  fadd :: "'a \<Rightarrow> 'a \<Rightarrow> 'a"
  fsub :: "'a \<Rightarrow> 'a \<Rightarrow> 'a"
  fmul :: "'a \<Rightarrow> 'a \<Rightarrow> 'a"
  fdiv :: "'a \<Rightarrow> 'a \<Rightarrow> 'a"
  fless :: "'a \<Rightarrow> 'a \<Rightarrow> bool"
  fsqrt :: "'a \<Rightarrow> 'a"
  lit_zero :: 'a
  lit_eps :: 'a

text \<open>
  The one property of machine arithmetic that the scenarios use: the naturals up to
  10, written \<open>num 0\<close>, ..., \<open>num 10\<close>, are machine numbers, and a sum, a product, a
  difference that is not negative and a quotient that divides evenly, taken of two of
  them, is computed without error. Binary floating-point arithmetic has this property:
  these operands and results are integers far below the size of the significand.
\<close>

definition small_naturals_exact :: "'a arith \<Rightarrow> (nat \<Rightarrow> 'a) \<Rightarrow> bool" where
  "small_naturals_exact A num \<longleftrightarrow>
     (\<forall>i j. i \<le> 10 \<and> j \<le> 10 \<longrightarrow> fadd A (num i) (num j) = num (i + j))
   \<and> (\<forall>i j. i \<le> 10 \<and> j \<le> 10 \<longrightarrow> fmul A (num i) (num j) = num (i * j))
   \<and> (\<forall>i j. j \<le> i \<and> i \<le> 10 \<longrightarrow> fsub A (num i) (num j) = num (i - j))
   \<and> (\<forall>i j. i \<le> 10 \<and> 0 < j \<and> j \<le> 10 \<and> j dvd i \<longrightarrow>
         fdiv A (num i) (num j) = num (i div j))"

text \<open>
  An arithmetic for the instances: the exact operations on the real numbers, with the
  literal \<^verbatim>\<open>1.0E-10\<close> at the value of the double nearest to it,
  \<open>7737125245533627 / 2^86\<close>. The instances below use small naturals and powers of
  two only, on which no operation of double arithmetic rounds, so that the machine
  computes the same values. Nothing proved of this arithmetic alone is a statement about
  what the program computes on other values.
\<close>

definition exact_arith :: "real arith" where
  "exact_arith =
     \<lparr>fadd = (+), fsub = (-), fmul = (*), fdiv = (/), fless = (<), fsqrt = sqrt,
      lit_zero = 0, lit_eps = 7737125245533627 / 2 ^ 86\<rparr>"

section \<open>The vector class of QGLViewer/vec.cpp\<close>

text \<open>
  \<^verbatim>\<open>Vec\<close> holds three coordinates that can be read by name (\<^verbatim>\<open>x\<close>, \<^verbatim>\<open>y\<close>, \<^verbatim>\<open>z\<close>)
  or by position (\<^verbatim>\<open>v_[0]\<close>, \<^verbatim>\<open>v_[1]\<close>, \<^verbatim>\<open>v_[2]\<close>); both views are the same storage.
\<close>

record 'a Vec =
  x :: 'a
  y :: 'a
  z :: 'a

text \<open>
  Positional write \<^verbatim>\<open>v_[i] = a\<close>. The array has three cells; the only loop that
  writes through it stays below 3, and an index beyond that leaves the value alone here.
\<close>

definition v_update :: "nat \<Rightarrow> 'a \<Rightarrow> 'a Vec \<Rightarrow> 'a Vec" where
  "v_update i a v =
     (if i = 0 then v\<lparr>x := a\<rparr>
      else if i = 1 then v\<lparr>y := a\<rparr>
      else if i = 2 then v\<lparr>z := a\<rparr>
      else v)"

subsection \<open>Inline operators of vec.h\<close>

text \<open>
  The header vec.h, which declares the inline operators that vec.cpp calls, is not
  among the sources. Each operator below is written from the specification, which
  lists them as the usual operations on vectors, over the machine operations.
\<close>

text \<open>
  Modelled from the spec: \<^verbatim>\<open>operator*(const Vec&, const Vec&)\<close> of vec.h, the dot
  product, written \<^verbatim>\<open>*\<close> between two vectors; the three products are added from
  left to right.
\<close>

definition dot :: "'a arith \<Rightarrow> 'a Vec \<Rightarrow> 'a Vec \<Rightarrow> 'a" where
  "dot A a b =
     fadd A (fadd A (fmul A (x a) (x b)) (fmul A (y a) (y b))) (fmul A (z a) (z b))"

text \<open>Modelled from the spec: \<^verbatim>\<open>Vec::squaredNorm\<close> of vec.h, the squared norm.\<close>

definition squaredNorm :: "'a arith \<Rightarrow> 'a Vec \<Rightarrow> 'a" where
  "squaredNorm A a =
     fadd A (fadd A (fmul A (x a) (x a)) (fmul A (y a) (y a))) (fmul A (z a) (z a))"

text \<open>
  Modelled from the spec: \<^verbatim>\<open>Vec::norm\<close> of vec.h, the norm, the square root of the
  squared norm.
\<close>

definition norm_Vec :: "'a arith \<Rightarrow> 'a Vec \<Rightarrow> 'a" where
  "norm_Vec A a =
     fsqrt A (fadd A (fadd A (fmul A (x a) (x a)) (fmul A (y a) (y a))) (fmul A (z a) (z a)))"

text \<open>
  Modelled from the spec: \<^verbatim>\<open>operator*(double, const Vec&)\<close> of vec.h, scalar
  multiplication; it returns a new vector.
\<close>

definition scal :: "'a arith \<Rightarrow> 'a \<Rightarrow> 'a Vec \<Rightarrow> 'a Vec" where
  "scal A k a = \<lparr>x = fmul A k (x a), y = fmul A k (y a), z = fmul A k (z a)\<rparr>"

text \<open>
  Modelled from the spec: subtraction of vectors, the value that \<^verbatim>\<open>operator-=\<close> of
  vec.h stores into its left operand.
\<close>

definition sub :: "'a arith \<Rightarrow> 'a Vec \<Rightarrow> 'a Vec \<Rightarrow> 'a Vec" where
  "sub A a b = \<lparr>x = fsub A (x a) (x b), y = fsub A (y a) (y b), z = fsub A (z a) (z b)\<rparr>"

subsection \<open>Objects, references and diagnostics\<close>

text \<open>
  The projections write into \<^verbatim>\<open>*this\<close> and read their argument through a
  \<^verbatim>\<open>const Vec&\<close>, which may refer to the same object. Vectors therefore live in a
  store indexed by addresses, and a method takes the addresses of its receiver and of
  its reference argument. \<^verbatim>\<open>qWarning\<close> appends to a log: the format string and the
  number passed for \<^verbatim>\<open>%f\<close>.
\<close>

type_synonym addr = nat

datatype 'a warning = qWarning string 'a

record 'a state =
  heap :: "addr \<Rightarrow> 'a Vec"
  warnings :: "'a warning list"

text \<open>
  \<^verbatim>\<open>Vec::projectOnAxis\<close>. The flag \<open>debug\<close> is true when \<^verbatim>\<open>QT_NO_DEBUG\<close> is not
  defined. The right-hand side is a temporary, built before \<^verbatim>\<open>*this\<close> is assigned.
\<close>

definition projectOnAxis :: "'a arith \<Rightarrow> bool \<Rightarrow> addr \<Rightarrow> addr \<Rightarrow> 'a state \<Rightarrow> 'a state" where
  "projectOnAxis A debug this direction s =
     (let s1 = (if debug \<and> fless A (squaredNorm A (heap s direction)) (lit_eps A)
                then s\<lparr>warnings := warnings s @
                       [qWarning ''Vec::projectOnAxis: axis direction is not normalized (norm=%f).''
                          (norm_Vec A (heap s direction))]\<rparr>
                else s);
          tmp = scal A (fdiv A (dot A (heap s1 this) (heap s1 direction))
                               (squaredNorm A (heap s1 direction)))
                  (heap s1 direction)
      in s1\<lparr>heap := (heap s1)(this := tmp)\<rparr>)"

text \<open>\<^verbatim>\<open>Vec::projectOnPlane\<close>: the same check, then \<^verbatim>\<open>*this -= tmp\<close>.\<close>

definition projectOnPlane :: "'a arith \<Rightarrow> bool \<Rightarrow> addr \<Rightarrow> addr \<Rightarrow> 'a state \<Rightarrow> 'a state" where
  "projectOnPlane A debug this normal s =
     (let s1 = (if debug \<and> fless A (squaredNorm A (heap s normal)) (lit_eps A)
                then s\<lparr>warnings := warnings s @
                       [qWarning ''Vec::projectOnPlane: plane normal is not normalized (norm=%f).''
                          (norm_Vec A (heap s normal))]\<rparr>
                else s);
          tmp = scal A (fdiv A (dot A (heap s1 this) (heap s1 normal))
                               (squaredNorm A (heap s1 normal)))
                  (heap s1 normal)
      in s1\<lparr>heap := (heap s1)(this := sub A (heap s1 this) tmp)\<rparr>)"

subsection \<open>XML elements\<close>

text \<open>
  The Qt classes \<^verbatim>\<open>QDomElement\<close> and \<^verbatim>\<open>QDomDocument\<close> and the helper
  \<^verbatim>\<open>DomUtils::floatFromDom\<close> of domUtils.h are not among the sources; they are
  written from the specification's description of the element collaborator. The
  conversions between numbers and text belong to Qt and are parameters: \<open>number\<close>
  stands for \<^verbatim>\<open>QString::number\<close> and \<open>toFloat\<close> for the parser, which answers
  \<open>None\<close> on text that is not a number.
\<close>

text \<open>
  Modelled from the spec: an attributed element, a named node carrying string
  attributes that are looked up by name.
\<close>

record QDomElement =
  tagName :: string
  attributes :: "string \<rightharpoonup> string"

text \<open>Modelled from the spec: the document factory that mints new elements.\<close>

datatype QDomDocument = QDomDocument string

text \<open>
  Modelled from the spec: \<^verbatim>\<open>createElement(document, tagName)\<close> gives a new
  element with that tag name; it is attached to no parent and has no attribute yet.
\<close>

definition createElement :: "QDomDocument \<Rightarrow> string \<Rightarrow> QDomElement" where
  "createElement document name = \<lparr>tagName = name, attributes = Map.empty\<rparr>"

text \<open>Modelled from the spec: \<^verbatim>\<open>setAttribute(element, name, value)\<close>.\<close>

definition setAttribute :: "string \<Rightarrow> string \<Rightarrow> QDomElement \<Rightarrow> QDomElement" where
  "setAttribute name val e = e\<lparr>attributes := (attributes e)(name \<mapsto> val)\<rparr>"

text \<open>
  Modelled from the spec: \<^verbatim>\<open>DomUtils::floatFromDom(element, attribute, default)\<close> of
  domUtils.h returns the attribute's value as a number, or the default when the
  attribute is absent or does not parse. The warning it may print is not modelled.
\<close>

definition floatFromDom ::
    "(string \<Rightarrow> 'a option) \<Rightarrow> QDomElement \<Rightarrow> string \<Rightarrow> 'a \<Rightarrow> 'a" where
  "floatFromDom toFloat e attribute defValue =
     (case attributes e attribute of
        None \<Rightarrow> defValue
      | Some s \<Rightarrow> (case toFloat s of None \<Rightarrow> defValue | Some a \<Rightarrow> a))"

text \<open>
  \<^verbatim>\<open>Vec::Vec(const QDomElement&)\<close>. The loop runs \<open>i\<close> over the positions of the
  list \<^verbatim>\<open>"x" "y" "z"\<close> and stores the attribute read at position \<open>i\<close>, with the
  default \<^verbatim>\<open>0.0\<close>. The constructor initialises nothing before the loop, so it starts
  from whatever the storage holds, here the argument \<open>raw\<close>.
\<close>

function Vec_loop ::
    "'a arith \<Rightarrow> (string \<Rightarrow> 'a option) \<Rightarrow> QDomElement \<Rightarrow> string list \<Rightarrow> nat \<Rightarrow> 'a Vec
       \<Rightarrow> 'a Vec" where
  "Vec_loop A toFloat element attribute i this =
     (if i < length attribute
      then Vec_loop A toFloat element attribute (i + 1)
             (v_update i (floatFromDom toFloat element (attribute ! i) (lit_zero A)) this)
      else this)"
  by pat_completeness auto
termination
  by (relation "measure (\<lambda>(A, toFloat, element, attribute, i, this). length attribute - i)") auto

declare Vec_loop.simps [simp del]

definition Vec_QDomElement ::
    "'a arith \<Rightarrow> (string \<Rightarrow> 'a option) \<Rightarrow> QDomElement \<Rightarrow> 'a Vec \<Rightarrow> 'a Vec" where
  "Vec_QDomElement A toFloat element raw =
     Vec_loop A toFloat element [''x'', ''y'', ''z''] 0 raw"

text \<open>\<^verbatim>\<open>Vec::domElement\<close>, a \<^verbatim>\<open>const\<close> method: it returns the new element.\<close>

definition domElement ::
    "('a \<Rightarrow> string) \<Rightarrow> addr \<Rightarrow> string \<Rightarrow> QDomDocument \<Rightarrow> 'a state
       \<Rightarrow> QDomElement \<times> 'a state" where
  "domElement number this name document s =
     (let de = createElement document name;
          de = setAttribute ''x'' (number (x (heap s this))) de;
          de = setAttribute ''y'' (number (y (heap s this))) de;
          de = setAttribute ''z'' (number (z (heap s this))) de
      in (de, s))"

text \<open>Copy assignment \<^verbatim>\<open>*this = v\<close>: the receiver takes the whole value.\<close>

definition assign :: "addr \<Rightarrow> 'a Vec \<Rightarrow> 'a state \<Rightarrow> 'a state" where
  "assign this v s = s\<lparr>heap := (heap s)(this := v)\<rparr>"

text \<open>
  \<^verbatim>\<open>Vec::initFromDOMElement\<close>: a local \<^verbatim>\<open>const Vec v(element)\<close>, built in fresh
  storage \<open>raw\<close>, then \<^verbatim>\<open>*this = v\<close>.
\<close>

definition initFromDOMElement ::
    "'a arith \<Rightarrow> (string \<Rightarrow> 'a option) \<Rightarrow> 'a Vec \<Rightarrow> addr \<Rightarrow> QDomElement \<Rightarrow> 'a state
       \<Rightarrow> 'a state" where
  "initFromDOMElement A toFloat raw this element s =
     (let v = Vec_QDomElement A toFloat element raw
      in assign this v s)"

text \<open>
  The specification's wording of the same operation, written on its own: a fresh
  value is constructed from the element, and afterwards the store holds that value,
  coordinate for coordinate, at the receiver and is otherwise as before.
\<close>

definition construct_then_assign ::
    "'a arith \<Rightarrow> (string \<Rightarrow> 'a option) \<Rightarrow> 'a Vec \<Rightarrow> addr \<Rightarrow> QDomElement \<Rightarrow> 'a state
       \<Rightarrow> 'a state" where
  "construct_then_assign A toFloat raw this element s =
     (let fresh = Vec_QDomElement A toFloat element raw
      in \<lparr>heap = (\<lambda>a. if a = this then \<lparr>x = x fresh, y = y fresh, z = z fresh\<rparr> else heap s a),
          warnings = warnings s\<rparr>)"

subsection \<open>Stream output\<close>

text \<open>
  \<^verbatim>\<open>operator<<(ostream&, const Vec&)\<close>. A stream is the text written to it so far.
  How the stream prints one number depends on the stream's settings and is the
  parameter \<open>fmt\<close>.
\<close>

definition put_number :: "('a \<Rightarrow> string) \<Rightarrow> 'a \<Rightarrow> string \<Rightarrow> string" where
  "put_number fmt a out = out @ fmt a"

definition put_char :: "char \<Rightarrow> string \<Rightarrow> string" where
  "put_char c out = out @ [c]"

definition shift_left :: "('a \<Rightarrow> string) \<Rightarrow> string \<Rightarrow> 'a Vec \<Rightarrow> string" where
  "shift_left fmt out v =
     put_number fmt (z v) (put_char (CHR 0x09)
       (put_number fmt (y v) (put_char (CHR 0x09)
         (put_number fmt (x v) out))))"

section \<open>Facts used by several proofs\<close>





lemma exact_arith_small_naturals: "small_naturals_exact exact_arith real"
  by (auto simp add: small_naturals_exact_def exact_arith_def real_of_nat_div)


lemma heap_projectOnAxis:
  "heap (projectOnAxis A debug this direction s) =
     (heap s)(this := scal A (fdiv A (dot A (heap s this) (heap s direction))
                                     (squaredNorm A (heap s direction)))
        (heap s direction))"
  by (simp add: projectOnAxis_def Let_def)

lemma heap_projectOnPlane:
  "heap (projectOnPlane A debug this normal s) =
     (heap s)(this := sub A (heap s this)
        (scal A (fdiv A (dot A (heap s this) (heap s normal)) (squaredNorm A (heap s normal)))
           (heap s normal)))"
  by (simp add: projectOnPlane_def Let_def)

lemma Vec_QDomElement_fields:
  "Vec_QDomElement A toFloat e raw =
     \<lparr>x = floatFromDom toFloat e ''x'' (lit_zero A),
      y = floatFromDom toFloat e ''y'' (lit_zero A),
      z = floatFromDom toFloat e ''z'' (lit_zero A)\<rparr>"
  by (simp add: Vec_QDomElement_def Vec_loop.simps v_update_def)

lemma attributes_domElement:
  "attributes (fst (domElement number this name document s)) =
     [''x'' \<mapsto> number (x (heap s this)),
      ''y'' \<mapsto> number (y (heap s this)),
      ''z'' \<mapsto> number (z (heap s this))]"
  by (simp add: domElement_def createElement_def setAttribute_def Let_def)

section \<open>What the expressions mean in exact arithmetic\<close>

text \<open>
  Over the real numbers, with exact operations and a direction \<open>d\<close> with \<open>d\<cdot>d\<close>
  not zero, the vector \<open>v - ((v\<cdot>d) / (d\<cdot>d)) * d\<close> is orthogonal to \<open>d\<close>. So the
  vector that \<^verbatim>\<open>projectOnAxis\<close> assigns is the orthogonal projection on the line
  spanned by \<open>d\<close>, and the vector that \<^verbatim>\<open>projectOnPlane\<close> assigns has no component
  along its normal. This is about the expressions, not about what the machine
  computes: machine arithmetic rounds and overflows, and its results have these
  properties only approximately, or not at all once an intermediate value overflows.
\<close>

lemma exact_dot_sub:
  "dot exact_arith (sub exact_arith a b) c = dot exact_arith a c - dot exact_arith b c"
  by (simp add: dot_def sub_def exact_arith_def algebra_simps)

lemma exact_dot_scal:
  "dot exact_arith (scal exact_arith k a) b = k * dot exact_arith a b"
  by (simp add: dot_def scal_def exact_arith_def algebra_simps)

lemma exact_orthogonal:
  assumes "dot exact_arith d d \<noteq> 0"
  shows "dot exact_arith
           (sub exact_arith v
              (scal exact_arith (fdiv exact_arith (dot exact_arith v d) (dot exact_arith d d)) d))
           d = 0"
proof -
  have "fdiv exact_arith (dot exact_arith v d) (dot exact_arith d d) * dot exact_arith d d
          = dot exact_arith v d"
    using assms by (simp add: exact_arith_def)
  then show ?thesis
    by (simp add: exact_dot_sub exact_dot_scal)
qed

section \<open>Projections\<close>





text \<open>
  Claim C5. The projections have no failing path, whatever the argument: each returns
  a state. When the test \<^verbatim>\<open>squaredNorm() < 1.0E-10\<close> succeeds a debug build appends
  one warning, which carries the norm of the argument, and a release build appends
  nothing; in both builds the receiver is then assigned from the same expression as
  for any other argument, and the quotient by the squared norm is taken whatever the
  squared norm is, zero included. What that quotient is (an infinity or NaN in IEEE
  arithmetic) is the machine's answer \<open>fdiv\<close>, and it is what the receiver is built
  from.
\<close>

theorem projections_warn_and_proceed:
  "projectOnAxis A debug this d s =
     \<lparr>heap = (heap s)(this := scal A (fdiv A (dot A (heap s this) (heap s d))
                                             (squaredNorm A (heap s d))) (heap s d)),
      warnings = warnings s @
        (if debug \<and> fless A (squaredNorm A (heap s d)) (lit_eps A)
         then [qWarning ''Vec::projectOnAxis: axis direction is not normalized (norm=%f).''
                 (norm_Vec A (heap s d))]
         else [])\<rparr>
   \<and> projectOnPlane A debug this d s =
     \<lparr>heap = (heap s)(this := sub A (heap s this)
               (scal A (fdiv A (dot A (heap s this) (heap s d))
                               (squaredNorm A (heap s d))) (heap s d))),
      warnings = warnings s @
        (if debug \<and> fless A (squaredNorm A (heap s d)) (lit_eps A)
         then [qWarning ''Vec::projectOnPlane: plane normal is not normalized (norm=%f).''
                 (norm_Vec A (heap s d))]
         else [])\<rparr>"
  by (simp add: projectOnAxis_def projectOnPlane_def Let_def)

text \<open>
  A degenerate argument: \<open>(2^-20, 0, 0)\<close> has squared norm \<open>2^-40\<close>, below the literal.
  The debug build warns with the norm \<open>2^-20\<close>, the release build is silent, and both
  compute. Every operation involved is exact in double arithmetic.
\<close>

theorem projections_degenerate_instance:
  "fless exact_arith (squaredNorm exact_arith \<lparr>x = 1 / 2 ^ 20, y = 0, z = 0\<rparr>) (lit_eps exact_arith)
   \<and> heap (projectOnAxis exact_arith True 0 1
       \<lparr>heap = (\<lambda>a. \<lparr>x = 0, y = 0, z = 0\<rparr>)
                 (0 := \<lparr>x = 1, y = 2, z = 3\<rparr>, 1 := \<lparr>x = 1 / 2 ^ 20, y = 0, z = 0\<rparr>),
        warnings = []\<rparr>) 0 = \<lparr>x = 1, y = 0, z = 0\<rparr>
   \<and> warnings (projectOnAxis exact_arith True 0 1
       \<lparr>heap = (\<lambda>a. \<lparr>x = 0, y = 0, z = 0\<rparr>)
                 (0 := \<lparr>x = 1, y = 2, z = 3\<rparr>, 1 := \<lparr>x = 1 / 2 ^ 20, y = 0, z = 0\<rparr>),
        warnings = []\<rparr>)
       = [qWarning ''Vec::projectOnAxis: axis direction is not normalized (norm=%f).''
            (1 / 2 ^ 20)]
   \<and> heap (projectOnPlane exact_arith False 0 1
       \<lparr>heap = (\<lambda>a. \<lparr>x = 0, y = 0, z = 0\<rparr>)
                 (0 := \<lparr>x = 1, y = 2, z = 3\<rparr>, 1 := \<lparr>x = 1 / 2 ^ 20, y = 0, z = 0\<rparr>),
        warnings = []\<rparr>) 0 = \<lparr>x = 0, y = 2, z = 3\<rparr>
   \<and> warnings (projectOnPlane exact_arith False 0 1
       \<lparr>heap = (\<lambda>a. \<lparr>x = 0, y = 0, z = 0\<rparr>)
                 (0 := \<lparr>x = 1, y = 2, z = 3\<rparr>, 1 := \<lparr>x = 1 / 2 ^ 20, y = 0, z = 0\<rparr>),
        warnings = []\<rparr>) = []"
proof -
  let ?s = "\<lparr>heap = (\<lambda>a. \<lparr>x = 0, y = 0, z = 0\<rparr>)
                 (0 := \<lparr>x = 1, y = 2, z = 3\<rparr>, 1 := \<lparr>x = 1 / 2 ^ 20 :: real, y = 0, z = 0\<rparr>),
        warnings = []\<rparr>"
  note axis = projections_warn_and_proceed [of exact_arith True 0 1 ?s, THEN conjunct1]
  note plane = projections_warn_and_proceed [of exact_arith False 0 1 ?s, THEN conjunct2]
  have n: "sqrt (1 / 1099511627776) = 1 / 1048576"
    by (rule real_sqrt_unique) (simp_all add: power2_eq_square)
  show ?thesis
    unfolding axis plane
    by (simp add: n exact_arith_def squaredNorm_def norm_Vec_def dot_def scal_def sub_def)
qed

section \<open>Serialization\<close>

text \<open>
  Claim C3. Writing a vector with \<^verbatim>\<open>domElement\<close> and constructing a vector from the
  element obtained gives, in each coordinate, the number that the parser reads in the
  text written for that same coordinate, and \<^verbatim>\<open>0.0\<close> if that text does not parse.
  The tag name, the document, the other coordinates and the storage in which the new
  vector is built play no part. So the round trip loses exactly what the conversion to
  decimal text and back loses, and nothing else.
\<close>

theorem domElement_then_construct:
  "x (Vec_QDomElement (A :: 'a arith) toFloat
        (fst (domElement number this name document (s :: 'a state))) raw) =
     (case toFloat (number (x (heap s this))) of None \<Rightarrow> lit_zero A | Some a \<Rightarrow> a)
   \<and> y (Vec_QDomElement A toFloat (fst (domElement number this name document s)) raw) =
     (case toFloat (number (y (heap s this))) of None \<Rightarrow> lit_zero A | Some a \<Rightarrow> a)
   \<and> z (Vec_QDomElement A toFloat (fst (domElement number this name document s)) raw) =
     (case toFloat (number (z (heap s this))) of None \<Rightarrow> lit_zero A | Some a \<Rightarrow> a)"
  by (simp add: Vec_QDomElement_fields floatFromDom_def attributes_domElement)

text \<open>
  An instance with six significant digits: \<open>1.5\<close> is written as \<open>1.5\<close> and comes back
  as it was, \<open>1234567\<close> is written as \<open>1.23457e+06\<close> and comes back as \<open>1234570\<close>.
\<close>

theorem domElement_then_construct_instance:
  "x (Vec_QDomElement exact_arith
     (\<lambda>t. if t = ''1.5'' then Some (3 / 2) else if t = ''1.23457e+06'' then Some 1234570
          else if t = ''0'' then Some 0 else None)
     (fst (domElement
        (\<lambda>r::real. if r = 3 / 2 then ''1.5'' else if r = 1234567 then ''1.23457e+06'' else ''0'')
        0 ''pos'' (QDomDocument ''myDocument'')
        \<lparr>heap = (\<lambda>a. \<lparr>x = 3 / 2, y = 1234567, z = 0\<rparr>), warnings = []\<rparr>))
     \<lparr>x = 7, y = 7, z = 7\<rparr>) = 3 / 2
   \<and> y (Vec_QDomElement exact_arith
     (\<lambda>t. if t = ''1.5'' then Some (3 / 2) else if t = ''1.23457e+06'' then Some 1234570
          else if t = ''0'' then Some 0 else None)
     (fst (domElement
        (\<lambda>r::real. if r = 3 / 2 then ''1.5'' else if r = 1234567 then ''1.23457e+06'' else ''0'')
        0 ''pos'' (QDomDocument ''myDocument'')
        \<lparr>heap = (\<lambda>a. \<lparr>x = 3 / 2, y = 1234567, z = 0\<rparr>), warnings = []\<rparr>))
     \<lparr>x = 7, y = 7, z = 7\<rparr>) = 1234570
   \<and> z (Vec_QDomElement exact_arith
     (\<lambda>t. if t = ''1.5'' then Some (3 / 2) else if t = ''1.23457e+06'' then Some 1234570
          else if t = ''0'' then Some 0 else None)
     (fst (domElement
        (\<lambda>r::real. if r = 3 / 2 then ''1.5'' else if r = 1234567 then ''1.23457e+06'' else ''0'')
        0 ''pos'' (QDomDocument ''myDocument'')
        \<lparr>heap = (\<lambda>a. \<lparr>x = 3 / 2, y = 1234567, z = 0\<rparr>), warnings = []\<rparr>))
     \<lparr>x = 7, y = 7, z = 7\<rparr>) = 0"
  using domElement_then_construct
    [of exact_arith
      "\<lambda>t. if t = ''1.5'' then Some (3 / 2) else if t = ''1.23457e+06'' then Some 1234570
          else if t = ''0'' then Some 0 else None"
      "\<lambda>r::real. if r = 3 / 2 then ''1.5'' else if r = 1234567 then ''1.23457e+06'' else ''0''"
      0 "''pos''" "QDomDocument ''myDocument''"
      "\<lparr>heap = (\<lambda>a. \<lparr>x = 3 / 2 :: real, y = 1234567, z = 0\<rparr>), warnings = []\<rparr>"
      "\<lparr>x = 7, y = 7, z = 7\<rparr>"]
  by simp

text \<open>
  Claim C4. Constructing a vector from an element always gives a vector, and each
  coordinate is decided by its own attribute alone: it is the number read from the
  attribute when the attribute is present and parses, and \<^verbatim>\<open>0.0\<close> when the
  attribute is absent or does not parse. Nothing of the storage the vector is built in
  remains.
\<close>

theorem Vec_QDomElement_fallback:
  "x (Vec_QDomElement A toFloat e raw) =
     (case Option.bind (attributes e ''x'') toFloat of None \<Rightarrow> lit_zero A | Some a \<Rightarrow> a)
   \<and> y (Vec_QDomElement A toFloat e raw) =
     (case Option.bind (attributes e ''y'') toFloat of None \<Rightarrow> lit_zero A | Some a \<Rightarrow> a)
   \<and> z (Vec_QDomElement A toFloat e raw) =
     (case Option.bind (attributes e ''z'') toFloat of None \<Rightarrow> lit_zero A | Some a \<Rightarrow> a)"
  by (simp add: Vec_QDomElement_fields floatFromDom_def split: option.splits)

text \<open>
  The scenario of the claim: an element without the attribute \<open>y\<close> gives \<open>y = 0\<close>,
  and \<open>x\<close> and \<open>z\<close> are the element's values.
\<close>

theorem Vec_QDomElement_missing_y:
  "x (Vec_QDomElement exact_arith
     (\<lambda>t. if t = ''1.5'' then Some (3 / 2) else if t = ''-2.25'' then Some (- 9 / 4) else None)
     \<lparr>tagName = ''pos'', attributes = [''x'' \<mapsto> ''1.5'', ''z'' \<mapsto> ''-2.25'']\<rparr>
     \<lparr>x = 7, y = 7, z = 7\<rparr>) = 3 / 2
   \<and> y (Vec_QDomElement exact_arith
     (\<lambda>t. if t = ''1.5'' then Some (3 / 2) else if t = ''-2.25'' then Some (- 9 / 4) else None)
     \<lparr>tagName = ''pos'', attributes = [''x'' \<mapsto> ''1.5'', ''z'' \<mapsto> ''-2.25'']\<rparr>
     \<lparr>x = 7, y = 7, z = 7\<rparr>) = 0
   \<and> z (Vec_QDomElement exact_arith
     (\<lambda>t. if t = ''1.5'' then Some (3 / 2) else if t = ''-2.25'' then Some (- 9 / 4) else None)
     \<lparr>tagName = ''pos'', attributes = [''x'' \<mapsto> ''1.5'', ''z'' \<mapsto> ''-2.25'']\<rparr>
     \<lparr>x = 7, y = 7, z = 7\<rparr>) = - 9 / 4"
  using Vec_QDomElement_fallback
    [of exact_arith
      "\<lambda>t. if t = ''1.5'' then Some (3 / 2) else if t = ''-2.25'' then Some (- 9 / 4) else None"
      "\<lparr>tagName = ''pos'', attributes = [''x'' \<mapsto> ''1.5'', ''z'' \<mapsto> ''-2.25'']\<rparr>"
      "\<lparr>x = 7, y = 7, z = 7\<rparr>"]
  by (simp add: exact_arith_def)

text \<open>
  Claim C6. After \<^verbatim>\<open>initFromDOMElement\<close> the receiver holds the vector that the
  constructor builds from the element, every other object and the log are as before,
  and this is the state reached by constructing a fresh vector and assigning it to the
  receiver. It holds for every element, every earlier value of the receiver, and
  whatever the two pieces of fresh storage held.
\<close>

theorem initFromDOMElement_state:
  "initFromDOMElement A toFloat raw this element s =
     \<lparr>heap = (heap s)(this := Vec_QDomElement A toFloat element raw'), warnings = warnings s\<rparr>
   \<and> initFromDOMElement A toFloat raw this element s =
     construct_then_assign A toFloat raw' this element s"
  by (cases s)
    (auto simp add: initFromDOMElement_def construct_then_assign_def assign_def
      Vec_QDomElement_fields Let_def fun_eq_iff)

section \<open>Stream output\<close>

text \<open>
  Claim C9. The output operator appends to the stream the three coordinates in the
  order \<open>x\<close>, \<open>y\<close>, \<open>z\<close>, with one horizontal tab (character 9) between
  consecutive coordinates, nothing after \<open>z\<close> and no bracket around them.
\<close>

theorem shift_left_writes:
  "shift_left fmt out v = out @ fmt (x v) @ [CHR 0x09] @ fmt (y v) @ [CHR 0x09] @ fmt (z v)"
  by (simp add: shift_left_def put_number_def put_char_def)

section \<open>What the methods leave unchanged\<close>

text \<open>
  Claim C10, as the code has it. \<^verbatim>\<open>domElement\<close> changes no vector: the state it
  returns is the state it was called in. \<^verbatim>\<open>projectOnAxis\<close> and
  \<^verbatim>\<open>projectOnPlane\<close> leave their argument as it was whenever the argument is another
  object than the receiver.
\<close>

theorem projections_frame:
  "snd (domElement number this name document s) = s
   \<and> (direction \<noteq> this \<longrightarrow>
        heap (projectOnAxis A debug this direction s) direction = heap s direction)
   \<and> (normal \<noteq> this \<longrightarrow>
        heap (projectOnPlane A debug this normal s) normal = heap s normal)"
  by (simp add: domElement_def Let_def heap_projectOnAxis heap_projectOnPlane)

text \<open>An instance with the receiver at address 0 and the argument at address 1.\<close>

theorem projections_frame_instance:
  "(1::nat) \<noteq> 0
   \<and> snd (domElement (\<lambda>r. ''0'') 0 ''pos'' (QDomDocument ''myDocument'')
       \<lparr>heap = (\<lambda>a. \<lparr>x = 1, y = 2, z = 3\<rparr>)(1 := \<lparr>x = 1 :: real, y = 0, z = 0\<rparr>),
        warnings = []\<rparr>)
       = \<lparr>heap = (\<lambda>a. \<lparr>x = 1, y = 2, z = 3\<rparr>)(1 := \<lparr>x = 1, y = 0, z = 0\<rparr>),
          warnings = []\<rparr>
   \<and> heap (projectOnAxis exact_arith True 0 1
       \<lparr>heap = (\<lambda>a. \<lparr>x = 1, y = 2, z = 3\<rparr>)(1 := \<lparr>x = 1, y = 0, z = 0\<rparr>),
        warnings = []\<rparr>) 1 = \<lparr>x = 1, y = 0, z = 0\<rparr>
   \<and> heap (projectOnPlane exact_arith True 0 1
       \<lparr>heap = (\<lambda>a. \<lparr>x = 1, y = 2, z = 3\<rparr>)(1 := \<lparr>x = 1, y = 0, z = 0\<rparr>),
        warnings = []\<rparr>) 1 = \<lparr>x = 1, y = 0, z = 0\<rparr>"
proof -
  let ?s = "\<lparr>heap = (\<lambda>a::nat. \<lparr>x = 1, y = 2, z = 3\<rparr>)(1 := \<lparr>x = 1 :: real, y = 0, z = 0\<rparr>),
        warnings = [] :: real warning list\<rparr>"
  note frame = projections_frame
    [of "\<lambda>r. ''0''" 0 "''pos''" "QDomDocument ''myDocument''" ?s 1 exact_arith True 1]
  have neq: "(1::nat) \<noteq> 0"
    by simp
  have "snd (domElement (\<lambda>r. ''0'') 0 ''pos'' (QDomDocument ''myDocument'') ?s) = ?s"
    using frame by (rule conjunct1)
  moreover have "heap (projectOnAxis exact_arith True 0 1 ?s) 1 = heap ?s 1"
    using frame neq by blast
  moreover have "heap (projectOnPlane exact_arith True 0 1 ?s) 1 = heap ?s 1"
    using frame neq by blast
  ultimately show ?thesis
    by simp
qed

text \<open>
  The claim as it is written fails when the argument is the receiver itself:
  \<^verbatim>\<open>v.projectOnPlane(v)\<close> with \<open>v = (1, 0, 0)\<close> subtracts \<open>v\<close> from itself, so
  the object passed as the normal holds \<open>(0, 0, 0)\<close> afterwards. The operations
  involved (\<open>1 * 1\<close>, \<open>0 * 0\<close>, \<open>1 + 0\<close>, \<open>1 / 1\<close>, \<open>1 * 0\<close>, \<open>1 - 1\<close>, \<open>0 - 0\<close>) are
  exact in machine arithmetic.
\<close>

theorem projectOnPlane_aliased_argument_changes:
  "heap \<lparr>heap = (\<lambda>a. \<lparr>x = 1 :: real, y = 0, z = 0\<rparr>), warnings = []\<rparr> 0 = \<lparr>x = 1, y = 0, z = 0\<rparr>
   \<and> heap (projectOnPlane exact_arith True 0 0
        \<lparr>heap = (\<lambda>a. \<lparr>x = 1, y = 0, z = 0\<rparr>), warnings = []\<rparr>) 0
       = \<lparr>x = 0, y = 0, z = 0\<rparr>
   \<and> heap (projectOnPlane exact_arith True 0 0
        \<lparr>heap = (\<lambda>a. \<lparr>x = 1, y = 0, z = 0\<rparr>), warnings = []\<rparr>) 0
       \<noteq> heap \<lparr>heap = (\<lambda>a. \<lparr>x = 1 :: real, y = 0, z = 0\<rparr>), warnings = []\<rparr> 0"
  by (simp add: heap_projectOnPlane dot_def squaredNorm_def scal_def sub_def exact_arith_def)

end
